theory Spec2Isabelle
  imports Complex_Main
begin

unbundle bit_operations_syntax

section \<open>Marching cubes: the embedding\<close>

text \<open>
  The module \<^verbatim>\<open>marching_cubes.py\<close> extracts a triangle mesh from a scalar field.
  Python floats are idealised as reals (rounding is not modelled); the one float special
  the program can produce from finite data, the NaN that normalising a zero vector yields,
  is kept as a value of its own. Every exception the code can raise is an \<open>Inl\<close> result.
\<close>

subsection \<open>Errors and list indexing\<close>

datatype error = IndexError | ZeroDivisionError

text \<open>
  \<^verbatim>\<open>xs[i]\<close> on a Python list: an index from \<open>-len\<close> to \<open>-1\<close> counts from the end,
  an index outside \<open>[-len, len)\<close> raises IndexError.
\<close>

definition py_index :: "'a list \<Rightarrow> int \<Rightarrow> error + 'a" where
  "py_index xs i =
     (if 0 \<le> i \<and> i < int (length xs) then Inr (xs ! nat i)
      else if - int (length xs) \<le> i \<and> i < 0 then Inr (xs ! nat (i + int (length xs)))
      else Inl IndexError)"

subsection \<open>The case table\<close>

definition lookup_table :: "int list list" where
  "lookup_table = [
    [],
    [0, 8, 3],
    [0, 1, 9],
    [1, 8, 3, 9, 8, 1],
    [1, 2, 10],
    [0, 8, 3, 1, 2, 10],
    [9, 2, 10, 0, 2, 9],
    [2, 8, 3, 2, 10, 8, 10, 9, 8],
    [3, 11, 2],
    [0, 11, 2, 8, 11, 0],
    [1, 9, 0, 2, 3, 11],
    [1, 11, 2, 1, 9, 11, 9, 8, 11],
    [3, 10, 1, 11, 10, 3],
    [0, 10, 1, 0, 8, 10, 8, 11, 10],
    [3, 9, 0, 3, 11, 9, 11, 10, 9],
    [9, 8, 10, 10, 8, 11],
    [4, 7, 8],
    [4, 3, 0, 7, 3, 4],
    [0, 1, 9, 8, 4, 7],
    [4, 1, 9, 4, 7, 1, 7, 3, 1],
    [1, 2, 10, 8, 4, 7],
    [3, 4, 7, 3, 0, 4, 1, 2, 10],
    [9, 2, 10, 9, 0, 2, 8, 4, 7],
    [2, 10, 9, 2, 9, 7, 2, 7, 3, 7, 9, 4],
    [8, 4, 7, 3, 11, 2],
    [11, 4, 7, 11, 2, 4, 2, 0, 4],
    [9, 0, 1, 8, 4, 7, 2, 3, 11],
    [4, 7, 11, 9, 4, 11, 9, 11, 2, 9, 2, 1],
    [3, 10, 1, 3, 11, 10, 7, 8, 4],
    [1, 11, 10, 1, 4, 11, 1, 0, 4, 7, 11, 4],
    [4, 7, 8, 9, 0, 11, 9, 11, 10, 11, 0, 3],
    [4, 7, 11, 4, 11, 9, 9, 11, 10],
    [9, 5, 4],
    [9, 5, 4, 0, 8, 3],
    [0, 5, 4, 1, 5, 0],
    [8, 5, 4, 8, 3, 5, 3, 1, 5],
    [1, 2, 10, 9, 5, 4],
    [3, 0, 8, 1, 2, 10, 4, 9, 5],
    [5, 2, 10, 5, 4, 2, 4, 0, 2],
    [2, 10, 5, 3, 2, 5, 3, 5, 4, 3, 4, 8],
    [9, 5, 4, 2, 3, 11],
    [0, 11, 2, 0, 8, 11, 4, 9, 5],
    [0, 5, 4, 0, 1, 5, 2, 3, 11],
    [2, 1, 5, 2, 5, 8, 2, 8, 11, 4, 8, 5],
    [10, 3, 11, 10, 1, 3, 9, 5, 4],
    [4, 9, 5, 0, 8, 1, 8, 10, 1, 8, 11, 10],
    [5, 4, 0, 5, 0, 11, 5, 11, 10, 11, 0, 3],
    [5, 4, 8, 5, 8, 10, 10, 8, 11],
    [9, 7, 8, 5, 7, 9],
    [9, 3, 0, 9, 5, 3, 5, 7, 3],
    [0, 7, 8, 0, 1, 7, 1, 5, 7],
    [1, 5, 3, 3, 5, 7],
    [9, 7, 8, 9, 5, 7, 10, 1, 2],
    [10, 1, 2, 9, 5, 0, 5, 3, 0, 5, 7, 3],
    [8, 0, 2, 8, 2, 5, 8, 5, 7, 10, 5, 2],
    [2, 10, 5, 2, 5, 3, 3, 5, 7],
    [7, 9, 5, 7, 8, 9, 3, 11, 2],
    [9, 5, 7, 9, 7, 2, 9, 2, 0, 2, 7, 11],
    [2, 3, 11, 0, 1, 8, 1, 7, 8, 1, 5, 7],
    [11, 2, 1, 11, 1, 7, 7, 1, 5],
    [9, 5, 8, 8, 5, 7, 10, 1, 3, 10, 3, 11],
    [5, 7, 0, 5, 0, 9, 7, 11, 0, 1, 0, 10, 11, 10, 0],
    [11, 10, 0, 11, 0, 3, 10, 5, 0, 8, 0, 7, 5, 7, 0],
    [11, 10, 5, 7, 11, 5],
    [10, 6, 5],
    [0, 8, 3, 5, 10, 6],
    [9, 0, 1, 5, 10, 6],
    [1, 8, 3, 1, 9, 8, 5, 10, 6],
    [1, 6, 5, 2, 6, 1],
    [1, 6, 5, 1, 2, 6, 3, 0, 8],
    [9, 6, 5, 9, 0, 6, 0, 2, 6],
    [5, 9, 8, 5, 8, 2, 5, 2, 6, 3, 2, 8],
    [2, 3, 11, 10, 6, 5],
    [11, 0, 8, 11, 2, 0, 10, 6, 5],
    [0, 1, 9, 2, 3, 11, 5, 10, 6],
    [5, 10, 6, 1, 9, 2, 9, 11, 2, 9, 8, 11],
    [6, 3, 11, 6, 5, 3, 5, 1, 3],
    [0, 8, 11, 0, 11, 5, 0, 5, 1, 5, 11, 6],
    [3, 11, 6, 0, 3, 6, 0, 6, 5, 0, 5, 9],
    [6, 5, 9, 6, 9, 11, 11, 9, 8],
    [5, 10, 6, 4, 7, 8],
    [4, 3, 0, 4, 7, 3, 6, 5, 10],
    [1, 9, 0, 5, 10, 6, 8, 4, 7],
    [10, 6, 5, 1, 9, 7, 1, 7, 3, 7, 9, 4],
    [6, 1, 2, 6, 5, 1, 4, 7, 8],
    [1, 2, 5, 5, 2, 6, 3, 0, 4, 3, 4, 7],
    [8, 4, 7, 9, 0, 5, 0, 6, 5, 0, 2, 6],
    [7, 3, 9, 7, 9, 4, 3, 2, 9, 5, 9, 6, 2, 6, 9],
    [3, 11, 2, 7, 8, 4, 10, 6, 5],
    [5, 10, 6, 4, 7, 2, 4, 2, 0, 2, 7, 11],
    [0, 1, 9, 4, 7, 8, 2, 3, 11, 5, 10, 6],
    [9, 2, 1, 9, 11, 2, 9, 4, 11, 7, 11, 4, 5, 10, 6],
    [8, 4, 7, 3, 11, 5, 3, 5, 1, 5, 11, 6],
    [5, 1, 11, 5, 11, 6, 1, 0, 11, 7, 11, 4, 0, 4, 11],
    [0, 5, 9, 0, 6, 5, 0, 3, 6, 11, 6, 3, 8, 4, 7],
    [6, 5, 9, 6, 9, 11, 4, 7, 9, 7, 11, 9],
    [10, 4, 9, 6, 4, 10],
    [4, 10, 6, 4, 9, 10, 0, 8, 3],
    [10, 0, 1, 10, 6, 0, 6, 4, 0],
    [8, 3, 1, 8, 1, 6, 8, 6, 4, 6, 1, 10],
    [1, 4, 9, 1, 2, 4, 2, 6, 4],
    [3, 0, 8, 1, 2, 9, 2, 4, 9, 2, 6, 4],
    [0, 2, 4, 4, 2, 6],
    [8, 3, 2, 8, 2, 4, 4, 2, 6],
    [10, 4, 9, 10, 6, 4, 11, 2, 3],
    [0, 8, 2, 2, 8, 11, 4, 9, 10, 4, 10, 6],
    [3, 11, 2, 0, 1, 6, 0, 6, 4, 6, 1, 10],
    [6, 4, 1, 6, 1, 10, 4, 8, 1, 2, 1, 11, 8, 11, 1],
    [9, 6, 4, 9, 3, 6, 9, 1, 3, 11, 6, 3],
    [8, 11, 1, 8, 1, 0, 11, 6, 1, 9, 1, 4, 6, 4, 1],
    [3, 11, 6, 3, 6, 0, 0, 6, 4],
    [6, 4, 8, 11, 6, 8],
    [7, 10, 6, 7, 8, 10, 8, 9, 10],
    [0, 7, 3, 0, 10, 7, 0, 9, 10, 6, 7, 10],
    [10, 6, 7, 1, 10, 7, 1, 7, 8, 1, 8, 0],
    [10, 6, 7, 10, 7, 1, 1, 7, 3],
    [1, 2, 6, 1, 6, 8, 1, 8, 9, 8, 6, 7],
    [2, 6, 9, 2, 9, 1, 6, 7, 9, 0, 9, 3, 7, 3, 9],
    [7, 8, 0, 7, 0, 6, 6, 0, 2],
    [7, 3, 2, 6, 7, 2],
    [2, 3, 11, 10, 6, 8, 10, 8, 9, 8, 6, 7],
    [2, 0, 7, 2, 7, 11, 0, 9, 7, 6, 7, 10, 9, 10, 7],
    [1, 8, 0, 1, 7, 8, 1, 10, 7, 6, 7, 10, 2, 3, 11],
    [11, 2, 1, 11, 1, 7, 10, 6, 1, 6, 7, 1],
    [8, 9, 6, 8, 6, 7, 9, 1, 6, 11, 6, 3, 1, 3, 6],
    [0, 9, 1, 11, 6, 7],
    [7, 8, 0, 7, 0, 6, 3, 11, 0, 11, 6, 0],
    [7, 11, 6],
    [7, 6, 11],
    [3, 0, 8, 11, 7, 6],
    [0, 1, 9, 11, 7, 6],
    [8, 1, 9, 8, 3, 1, 11, 7, 6],
    [10, 1, 2, 6, 11, 7],
    [1, 2, 10, 3, 0, 8, 6, 11, 7],
    [2, 9, 0, 2, 10, 9, 6, 11, 7],
    [6, 11, 7, 2, 10, 3, 10, 8, 3, 10, 9, 8],
    [7, 2, 3, 6, 2, 7],
    [7, 0, 8, 7, 6, 0, 6, 2, 0],
    [2, 7, 6, 2, 3, 7, 0, 1, 9],
    [1, 6, 2, 1, 8, 6, 1, 9, 8, 8, 7, 6],
    [10, 7, 6, 10, 1, 7, 1, 3, 7],
    [10, 7, 6, 1, 7, 10, 1, 8, 7, 1, 0, 8],
    [0, 3, 7, 0, 7, 10, 0, 10, 9, 6, 10, 7],
    [7, 6, 10, 7, 10, 8, 8, 10, 9],
    [6, 8, 4, 11, 8, 6],
    [3, 6, 11, 3, 0, 6, 0, 4, 6],
    [8, 6, 11, 8, 4, 6, 9, 0, 1],
    [9, 4, 6, 9, 6, 3, 9, 3, 1, 11, 3, 6],
    [6, 8, 4, 6, 11, 8, 2, 10, 1],
    [1, 2, 10, 3, 0, 11, 0, 6, 11, 0, 4, 6],
    [4, 11, 8, 4, 6, 11, 0, 2, 9, 2, 10, 9],
    [10, 9, 3, 10, 3, 2, 9, 4, 3, 11, 3, 6, 4, 6, 3],
    [8, 2, 3, 8, 4, 2, 4, 6, 2],
    [0, 4, 2, 4, 6, 2],
    [1, 9, 0, 2, 3, 4, 2, 4, 6, 4, 3, 8],
    [1, 9, 4, 1, 4, 2, 2, 4, 6],
    [8, 1, 3, 8, 6, 1, 8, 4, 6, 6, 10, 1],
    [10, 1, 0, 10, 0, 6, 6, 0, 4],
    [4, 6, 3, 4, 3, 8, 6, 10, 3, 0, 3, 9, 10, 9, 3],
    [10, 9, 4, 6, 10, 4],
    [4, 9, 5, 7, 6, 11],
    [0, 8, 3, 4, 9, 5, 11, 7, 6],
    [5, 0, 1, 5, 4, 0, 7, 6, 11],
    [11, 7, 6, 8, 3, 4, 3, 5, 4, 3, 1, 5],
    [9, 5, 4, 10, 1, 2, 7, 6, 11],
    [6, 11, 7, 1, 2, 10, 0, 8, 3, 4, 9, 5],
    [7, 6, 11, 5, 4, 10, 4, 2, 10, 4, 0, 2],
    [3, 4, 8, 3, 5, 4, 3, 2, 5, 10, 5, 2, 11, 7, 6],
    [7, 2, 3, 7, 6, 2, 5, 4, 9],
    [9, 5, 4, 0, 8, 6, 0, 6, 2, 6, 8, 7],
    [3, 6, 2, 3, 7, 6, 1, 5, 0, 5, 4, 0],
    [6, 2, 8, 6, 8, 7, 2, 1, 8, 4, 8, 5, 1, 5, 8],
    [9, 5, 4, 10, 1, 6, 1, 7, 6, 1, 3, 7],
    [1, 6, 10, 1, 7, 6, 1, 0, 7, 8, 7, 0, 9, 5, 4],
    [4, 0, 10, 4, 10, 5, 0, 3, 10, 6, 10, 7, 3, 7, 10],
    [7, 6, 10, 7, 10, 8, 5, 4, 10, 4, 8, 10],
    [6, 9, 5, 6, 11, 9, 11, 8, 9],
    [3, 6, 11, 0, 6, 3, 0, 5, 6, 0, 9, 5],
    [0, 11, 8, 0, 5, 11, 0, 1, 5, 5, 6, 11],
    [6, 11, 3, 6, 3, 5, 5, 3, 1],
    [1, 2, 10, 9, 5, 11, 9, 11, 8, 11, 5, 6],
    [0, 11, 3, 0, 6, 11, 0, 9, 6, 5, 6, 9, 1, 2, 10],
    [11, 8, 5, 11, 5, 6, 8, 0, 5, 10, 5, 2, 0, 2, 5],
    [6, 11, 3, 6, 3, 5, 2, 10, 3, 10, 5, 3],
    [5, 8, 9, 5, 2, 8, 5, 6, 2, 3, 8, 2],
    [9, 5, 6, 9, 6, 0, 0, 6, 2],
    [1, 5, 8, 1, 8, 0, 5, 6, 8, 3, 8, 2, 6, 2, 8],
    [1, 5, 6, 2, 1, 6],
    [1, 3, 6, 1, 6, 10, 3, 8, 6, 5, 6, 9, 8, 9, 6],
    [10, 1, 0, 10, 0, 6, 9, 5, 0, 5, 6, 0],
    [0, 3, 8, 5, 6, 10],
    [10, 5, 6],
    [11, 5, 10, 7, 5, 11],
    [11, 5, 10, 11, 7, 5, 8, 3, 0],
    [5, 11, 7, 5, 10, 11, 1, 9, 0],
    [10, 7, 5, 10, 11, 7, 9, 8, 1, 8, 3, 1],
    [11, 1, 2, 11, 7, 1, 7, 5, 1],
    [0, 8, 3, 1, 2, 7, 1, 7, 5, 7, 2, 11],
    [9, 7, 5, 9, 2, 7, 9, 0, 2, 2, 11, 7],
    [7, 5, 2, 7, 2, 11, 5, 9, 2, 3, 2, 8, 9, 8, 2],
    [2, 5, 10, 2, 3, 5, 3, 7, 5],
    [8, 2, 0, 8, 5, 2, 8, 7, 5, 10, 2, 5],
    [9, 0, 1, 5, 10, 3, 5, 3, 7, 3, 10, 2],
    [9, 8, 2, 9, 2, 1, 8, 7, 2, 10, 2, 5, 7, 5, 2],
    [1, 3, 5, 3, 7, 5],
    [0, 8, 7, 0, 7, 1, 1, 7, 5],
    [9, 0, 3, 9, 3, 5, 5, 3, 7],
    [9, 8, 7, 5, 9, 7],
    [5, 8, 4, 5, 10, 8, 10, 11, 8],
    [5, 0, 4, 5, 11, 0, 5, 10, 11, 11, 3, 0],
    [0, 1, 9, 8, 4, 10, 8, 10, 11, 10, 4, 5],
    [10, 11, 4, 10, 4, 5, 11, 3, 4, 9, 4, 1, 3, 1, 4],
    [2, 5, 1, 2, 8, 5, 2, 11, 8, 4, 5, 8],
    [0, 4, 11, 0, 11, 3, 4, 5, 11, 2, 11, 1, 5, 1, 11],
    [0, 2, 5, 0, 5, 9, 2, 11, 5, 4, 5, 8, 11, 8, 5],
    [9, 4, 5, 2, 11, 3],
    [2, 5, 10, 3, 5, 2, 3, 4, 5, 3, 8, 4],
    [5, 10, 2, 5, 2, 4, 4, 2, 0],
    [3, 10, 2, 3, 5, 10, 3, 8, 5, 4, 5, 8, 0, 1, 9],
    [5, 10, 2, 5, 2, 4, 1, 9, 2, 9, 4, 2],
    [8, 4, 5, 8, 5, 3, 3, 5, 1],
    [0, 4, 5, 1, 0, 5],
    [8, 4, 5, 8, 5, 3, 9, 0, 5, 0, 3, 5],
    [9, 4, 5],
    [4, 11, 7, 4, 9, 11, 9, 10, 11],
    [0, 8, 3, 4, 9, 7, 9, 11, 7, 9, 10, 11],
    [1, 10, 11, 1, 11, 4, 1, 4, 0, 7, 4, 11],
    [3, 1, 4, 3, 4, 8, 1, 10, 4, 7, 4, 11, 10, 11, 4],
    [4, 11, 7, 9, 11, 4, 9, 2, 11, 9, 1, 2],
    [9, 7, 4, 9, 11, 7, 9, 1, 11, 2, 11, 1, 0, 8, 3],
    [11, 7, 4, 11, 4, 2, 2, 4, 0],
    [11, 7, 4, 11, 4, 2, 8, 3, 4, 3, 2, 4],
    [2, 9, 10, 2, 7, 9, 2, 3, 7, 7, 4, 9],
    [9, 10, 7, 9, 7, 4, 10, 2, 7, 8, 7, 0, 2, 0, 7],
    [3, 7, 10, 3, 10, 2, 7, 4, 10, 1, 10, 0, 4, 0, 10],
    [1, 10, 2, 8, 7, 4],
    [4, 9, 1, 4, 1, 7, 7, 1, 3],
    [4, 9, 1, 4, 1, 7, 0, 8, 1, 8, 7, 1],
    [4, 0, 3, 7, 4, 3],
    [4, 8, 7],
    [9, 10, 8, 10, 11, 8],
    [3, 0, 9, 3, 9, 11, 11, 9, 10],
    [0, 1, 10, 0, 10, 8, 8, 10, 11],
    [3, 1, 10, 11, 3, 10],
    [1, 2, 11, 1, 11, 9, 9, 11, 8],
    [3, 0, 9, 3, 9, 11, 1, 2, 9, 2, 11, 9],
    [0, 2, 11, 8, 0, 11],
    [3, 2, 11],
    [2, 3, 8, 2, 8, 10, 10, 8, 9],
    [9, 10, 2, 0, 9, 2],
    [2, 3, 8, 2, 8, 10, 0, 1, 8, 1, 10, 8],
    [1, 10, 2],
    [1, 3, 8, 9, 1, 8],
    [0, 9, 1],
    [0, 3, 8],
    []
  ]"

definition lookup_configuration :: "int \<Rightarrow> error + int list" where
  "lookup_configuration c = py_index lookup_table c"

subsection \<open>Corner classification\<close>

type_synonym scalar_field = "real \<Rightarrow> real \<Rightarrow> real \<Rightarrow> real"

text \<open>The two fields the script offers.\<close>

definition wavy :: scalar_field where
  "wavy x y z = y - sin x * cos z"


definition FRONT_BOTTOM_LEFT :: int where "FRONT_BOTTOM_LEFT = 8"
definition FRONT_BOTTOM_RIGHT :: int where "FRONT_BOTTOM_RIGHT = 4"
definition FRONT_TOP_LEFT :: int where "FRONT_TOP_LEFT = 128"
definition FRONT_TOP_RIGHT :: int where "FRONT_TOP_RIGHT = 64"
definition BACK_BOTTOM_LEFT :: int where "BACK_BOTTOM_LEFT = 1"
definition BACK_BOTTOM_RIGHT :: int where "BACK_BOTTOM_RIGHT = 2"
definition BACK_TOP_LEFT :: int where "BACK_TOP_LEFT = 16"
definition BACK_TOP_RIGHT :: int where "BACK_TOP_RIGHT = 32"

text \<open>One \<^verbatim>\<open>if (scalar_field(..) < isovalue): case |= BIT\<close> statement.\<close>

definition set_if_inside :: "real \<Rightarrow> real \<Rightarrow> int \<Rightarrow> int \<Rightarrow> int" where
  "set_if_inside v isovalue b c = (if v < isovalue then c OR b else c)"

text \<open>The bitmask of the cube at origin \<open>(x, y, z)\<close>, the eight tests in source order.\<close>

definition cube_case :: "scalar_field \<Rightarrow> real \<Rightarrow> real \<Rightarrow> real \<Rightarrow> real \<Rightarrow> real \<Rightarrow> int" where
  "cube_case scalar_field isovalue x y z stepsize =
     (let c = 0;
          c = set_if_inside (scalar_field x y z) isovalue BACK_BOTTOM_LEFT c;
          c = set_if_inside (scalar_field (x + stepsize) y z) isovalue BACK_BOTTOM_RIGHT c;
          c = set_if_inside (scalar_field x (y + stepsize) z) isovalue BACK_TOP_LEFT c;
          c = set_if_inside (scalar_field (x + stepsize) (y + stepsize) z) isovalue BACK_TOP_RIGHT c;
          c = set_if_inside (scalar_field x y (z + stepsize)) isovalue FRONT_BOTTOM_LEFT c;
          c = set_if_inside (scalar_field (x + stepsize) y (z + stepsize)) isovalue FRONT_BOTTOM_RIGHT c;
          c = set_if_inside (scalar_field x (y + stepsize) (z + stepsize)) isovalue FRONT_TOP_LEFT c;
          c = set_if_inside (scalar_field (x + stepsize) (y + stepsize) (z + stepsize)) isovalue FRONT_TOP_RIGHT c
      in c)"

subsection \<open>Loops that may raise\<close>

text \<open>
  A \<^verbatim>\<open>for v in xs: body\<close> loop over a state: the body either raises, which ends the
  loop with that error, or hands the updated state to the next iteration.
\<close>

fun for_loop :: "'a list \<Rightarrow> ('a \<Rightarrow> 's \<Rightarrow> error + 's) \<Rightarrow> 's \<Rightarrow> error + 's" where
  "for_loop [] body st = Inr st"
| "for_loop (v # vs) body st =
     (case body v st of Inl e \<Rightarrow> Inl e | Inr st' \<Rightarrow> for_loop vs body st')"

subsection \<open>Vertex emission\<close>

definition edge_midpoints :: "(real \<times> real \<times> real) list" where
  "edge_midpoints = [
    (0.5, 0.0, 0.0),
    (1.0, 0.0, 0.5),
    (0.5, 0.0, 1.0),
    (0.0, 0.0, 0.5),
    (0.5, 1.0, 0.0),
    (1.0, 1.0, 0.5),
    (0.5, 1.0, 1.0),
    (0.0, 1.0, 0.5),
    (0.0, 0.5, 0.0),
    (1.0, 0.5, 0.0),
    (1.0, 0.5, 1.0),
    (0.0, 0.5, 1.0)
  ]"

definition get_vertex_positions ::
    "int list \<Rightarrow> real \<times> real \<times> real \<Rightarrow> real \<Rightarrow> error + real list" where
  "get_vertex_positions configuration coordinate stepsize =
     (case coordinate of (x, y, z) \<Rightarrow>
        for_loop configuration
          (\<lambda>index configuration_vertices.
             case py_index edge_midpoints index of
               Inl e \<Rightarrow> Inl e
             | Inr (edge_x, edge_y, edge_z) \<Rightarrow>
                 Inr (configuration_vertices
                        @ [x + stepsize * edge_x, y + stepsize * edge_y, z + stepsize * edge_z]))
          [])"

subsection \<open>Lattice ranges\<close>

text \<open>
  \<^verbatim>\<open>np.arange(start, stop, step)\<close> is NumPy's, not this module's; it is modelled by its
  documented contract: \<open>\<lceil>(stop - start) / step\<rceil>\<close> values \<open>start + i * step\<close>, none when
  that count is not positive. The count is computed by a division of the Python arguments,
  which raises ZeroDivisionError for a zero step.
\<close>

definition arange :: "real \<Rightarrow> real \<Rightarrow> real \<Rightarrow> error + real list" where
  "arange start stop step =
     (if step = 0 then Inl ZeroDivisionError
      else Inr (map (\<lambda>i. start + real i * step) [0 ..< nat \<lceil>(stop - start) / step\<rceil>]))"

text \<open>The same on integers with a positive literal step, as the index loops use it.\<close>

definition arange_int :: "int \<Rightarrow> int \<Rightarrow> int \<Rightarrow> error + int list" where
  "arange_int start stop step =
     (if step = 0 then Inl ZeroDivisionError
      else Inr (map (\<lambda>i. start + int i * step) [0 ..< nat (- ((start - stop) div step))]))"

subsection \<open>The lattice scan\<close>

text \<open>The body of the innermost loop: classify the cube, look it up, emit, append.\<close>

definition scan_cube ::
    "scalar_field \<Rightarrow> real \<Rightarrow> real \<Rightarrow> real \<Rightarrow> real \<Rightarrow> real \<Rightarrow> real list \<Rightarrow> error + real list" where
  "scan_cube scalar_field isovalue stepsize y x z mesh_vertices =
     (case lookup_configuration (cube_case scalar_field isovalue x y z stepsize) of
        Inl e \<Rightarrow> Inl e
      | Inr edge_indices \<Rightarrow>
          (case get_vertex_positions edge_indices (x, y, z) stepsize of
             Inl e \<Rightarrow> Inl e
           | Inr cube_vertices \<Rightarrow>
               for_loop cube_vertices (\<lambda>vertex m. Inr (m @ [vertex])) mesh_vertices))"

definition marching_cubes ::
    "scalar_field \<Rightarrow> real \<Rightarrow> real \<Rightarrow> real \<Rightarrow> real \<Rightarrow> error + real list" where
  "marching_cubes scalar_field isovalue volume_min volume_max stepsize =
     (case arange volume_min volume_max stepsize of
        Inl e \<Rightarrow> Inl e
      | Inr ys \<Rightarrow>
          for_loop ys
            (\<lambda>y mesh_vertices.
               case arange volume_min volume_max stepsize of
                 Inl e \<Rightarrow> Inl e
               | Inr xs \<Rightarrow>
                   for_loop xs
                     (\<lambda>x mesh_vertices.
                        case arange volume_min volume_max stepsize of
                          Inl e \<Rightarrow> Inl e
                        | Inr zs \<Rightarrow>
                            for_loop zs (scan_cube scalar_field isovalue stepsize y x) mesh_vertices)
                     mesh_vertices)
            [])"

subsection \<open>Normals\<close>

text \<open>
  A normal component is a finite number or NaN. The vector operations are PyGLM's:
  \<^verbatim>\<open>glm.cross\<close>, the dot product, and \<^verbatim>\<open>glm.normalize(v)\<close>, which is
  \<^verbatim>\<open>v * inversesqrt(dot(v, v))\<close>; at the zero vector that is \<open>0 * inf\<close>, NaN in
  every component.
\<close>

datatype fval = Fin real | NaN

type_synonym vec3 = "real \<times> real \<times> real"

definition vec_sub :: "vec3 \<Rightarrow> vec3 \<Rightarrow> vec3" where
  "vec_sub u v = (case (u, v) of ((ux, uy, uz), (vx, vy, vz)) \<Rightarrow> (ux - vx, uy - vy, uz - vz))"

definition glm_cross :: "vec3 \<Rightarrow> vec3 \<Rightarrow> vec3" where
  "glm_cross u v =
     (case (u, v) of ((ux, uy, uz), (vx, vy, vz)) \<Rightarrow>
        (uy * vz - vy * uz, uz * vx - vz * ux, ux * vy - vx * uy))"

definition glm_dot :: "vec3 \<Rightarrow> vec3 \<Rightarrow> real" where
  "glm_dot u v = (case (u, v) of ((ux, uy, uz), (vx, vy, vz)) \<Rightarrow> ux * vx + uy * vy + uz * vz)"

definition glm_normalize :: "vec3 \<Rightarrow> fval \<times> fval \<times> fval" where
  "glm_normalize v =
     (case v of (vx, vy, vz) \<Rightarrow>
        if glm_dot v v = 0 then (NaN, NaN, NaN)
        else (Fin (vx * (1 / sqrt (glm_dot v v))),
              Fin (vy * (1 / sqrt (glm_dot v v))),
              Fin (vz * (1 / sqrt (glm_dot v v)))))"

text \<open>\<^verbatim>\<open>glm.vec3(vertices[i], vertices[i+1], vertices[i+2])\<close>: three reads, each may raise.\<close>

definition read_vec3 :: "real list \<Rightarrow> int \<Rightarrow> error + vec3" where
  "read_vec3 vertices i =
     (case py_index vertices i of
        Inl e \<Rightarrow> Inl e
      | Inr a \<Rightarrow>
          (case py_index vertices (i + 1) of
             Inl e \<Rightarrow> Inl e
           | Inr b \<Rightarrow>
               (case py_index vertices (i + 2) of
                  Inl e \<Rightarrow> Inl e
                | Inr c \<Rightarrow> Inr (a, b, c))))"

text \<open>The normal of the triangle whose first coordinate is at \<open>index\<close>.\<close>

definition triangle_normal :: "real list \<Rightarrow> int \<Rightarrow> error + fval \<times> fval \<times> fval" where
  "triangle_normal vertices index =
     (case read_vec3 vertices index of
        Inl e \<Rightarrow> Inl e
      | Inr vertexA \<Rightarrow>
          (case read_vec3 vertices (index + 3) of
             Inl e \<Rightarrow> Inl e
           | Inr vertexB \<Rightarrow>
               (case read_vec3 vertices (index + 6) of
                  Inl e \<Rightarrow> Inl e
                | Inr vertexC \<Rightarrow>
                    Inr (glm_normalize (glm_cross (vec_sub vertexB vertexA) (vec_sub vertexC vertexA))))))"

definition compute_normals :: "real list \<Rightarrow> error + fval list" where
  "compute_normals vertices =
     (case arange_int 0 (int (length vertices)) 9 of
        Inl e \<Rightarrow> Inl e
      | Inr indices \<Rightarrow>
          for_loop indices
            (\<lambda>index normals.
               case triangle_normal vertices index of
                 Inl e \<Rightarrow> Inl e
               | Inr (nx, ny, nz) \<Rightarrow>
                   for_loop [0 ..< 3] (\<lambda>i ns. Inr (ns @ [nx, ny, nz])) normals)
            [])"

subsection \<open>The PLY writer\<close>

text \<open>
  The file is the list of its lines, a line the list of its space-separated fields; how a
  number prints is not modelled. \<open>Inl\<close> is an exception raised while writing, which
  leaves the file incomplete. Path resolution and I/O failures are outside the model.
\<close>

datatype field_tok =
    Lit string
  | IntTok int
  | RealTok real
  | ValTok fval
  | StrTok "string option"

type_synonym line = "field_tok list"

definition ply_header :: "string option \<Rightarrow> int \<Rightarrow> int \<Rightarrow> line list" where
  "ply_header comment num_vertices num_faces =
     [[Lit ''ply''],
      [Lit ''format'', Lit ''ascii'', Lit ''1.0''],
      [Lit ''comment'', StrTok comment],
      [Lit ''element'', Lit ''vertex'', IntTok num_vertices],
      [Lit ''property'', Lit ''float'', Lit ''x''],
      [Lit ''property'', Lit ''float'', Lit ''y''],
      [Lit ''property'', Lit ''float'', Lit ''z''],
      [Lit ''property'', Lit ''float'', Lit ''nx''],
      [Lit ''property'', Lit ''float'', Lit ''ny''],
      [Lit ''property'', Lit ''float'', Lit ''nz''],
      [Lit ''element'', Lit ''face'', IntTok num_faces],
      [Lit ''property'', Lit ''list'', Lit ''uchar'', Lit ''uint'', Lit ''vertex_indices''],
      [Lit ''end_header'']]"

text \<open>The vertex line written for index \<open>i\<close>: six reads, each may raise.\<close>

definition vertex_line :: "real list \<Rightarrow> fval list \<Rightarrow> int \<Rightarrow> error + line" where
  "vertex_line vertices normals i =
     (case read_vec3 vertices i of
        Inl e \<Rightarrow> Inl e
      | Inr (px, py, pz) \<Rightarrow>
          (case py_index normals i of
             Inl e \<Rightarrow> Inl e
           | Inr nx \<Rightarrow>
               (case py_index normals (i + 1) of
                  Inl e \<Rightarrow> Inl e
                | Inr ny \<Rightarrow>
                    (case py_index normals (i + 2) of
                       Inl e \<Rightarrow> Inl e
                     | Inr nz \<Rightarrow>
                         Inr [RealTok px, RealTok py, RealTok pz, ValTok nx, ValTok ny, ValTok nz]))))"

definition face_line :: "int \<Rightarrow> line" where
  "face_line i = [Lit ''3'', IntTok i, IntTok (i + 1), IntTok (i + 2)]"

definition writePLY :: "real list \<Rightarrow> fval list \<Rightarrow> string option \<Rightarrow> error + line list" where
  "writePLY vertices normals comment =
     (let num_vertices = int (length vertices) div 3;
          num_faces = num_vertices div 3;
          file = ply_header comment num_vertices num_faces
      in case arange_int 0 (int (length vertices)) 3 of
           Inl e \<Rightarrow> Inl e
         | Inr vertex_indices \<Rightarrow>
             (case for_loop vertex_indices
                     (\<lambda>i file. case vertex_line vertices normals i of
                                  Inl e \<Rightarrow> Inl e
                                | Inr l \<Rightarrow> Inr (file @ [l]))
                     file of
                Inl e \<Rightarrow> Inl e
              | Inr file \<Rightarrow>
                  (case arange_int 0 num_vertices 3 of
                     Inl e \<Rightarrow> Inl e
                   | Inr face_indices \<Rightarrow>
                       for_loop face_indices (\<lambda>i file. Inr (file @ [face_line i])) file)))"

section \<open>What the specification says, as functions\<close>

text \<open>
  The specification's emitter: an edge index is resolved through the edge-midpoint table
  to an offset, and the emitted position is origin plus stepsize times that offset; the
  positions follow each other in the order of the edge indices.
\<close>

definition edge_offset :: "int \<Rightarrow> real \<times> real \<times> real" where
  "edge_offset e = edge_midpoints ! nat e"

definition edge_vertex :: "real \<times> real \<times> real \<Rightarrow> real \<Rightarrow> int \<Rightarrow> real list" where
  "edge_vertex origin stepsize e =
     (case (origin, edge_offset e) of ((x, y, z), (ox, oy, oz)) \<Rightarrow>
        [x + stepsize * ox, y + stepsize * oy, z + stepsize * oz])"

definition vertex_positions_spec ::
    "int list \<Rightarrow> real \<times> real \<times> real \<Rightarrow> real \<Rightarrow> real list" where
  "vertex_positions_spec configuration origin stepsize =
     concat (map (edge_vertex origin stepsize) configuration)"

text \<open>
  The lattice of cube origins along one axis, the vertices of one cube, and the mesh of a
  whole lattice in the scan's nesting order (y outermost, then x, then z).
\<close>

definition lattice :: "real \<Rightarrow> real \<Rightarrow> real \<Rightarrow> real list" where
  "lattice volume_min volume_max stepsize =
     map (\<lambda>i. volume_min + real i * stepsize)
       [0 ..< nat \<lceil>(volume_max - volume_min) / stepsize\<rceil>]"

definition cube_mesh :: "scalar_field \<Rightarrow> real \<Rightarrow> real \<Rightarrow> real \<Rightarrow> real \<Rightarrow> real \<Rightarrow> real list" where
  "cube_mesh f isovalue stepsize y x z =
     vertex_positions_spec (lookup_table ! nat (cube_case f isovalue x y z stepsize))
       (x, y, z) stepsize"

definition mesh_of_lattice :: "scalar_field \<Rightarrow> real \<Rightarrow> real \<Rightarrow> real list \<Rightarrow> real list" where
  "mesh_of_lattice f isovalue stepsize L =
     concat (map (\<lambda>y. concat (map (\<lambda>x. concat (map (\<lambda>z.
       cube_mesh f isovalue stepsize y x z) L)) L)) L)"

text \<open>
  The specification's normals: the vertex sequence is read in triangles of 9 reals,
  \<open>A\<close>, \<open>B\<close>, \<open>C\<close> being vertices 0, 1, 2 of triangle \<open>k\<close>; the triangle's normal is
  normalize(cross(B - A, C - A)), and it is written once for each of the three vertices.
\<close>

definition triangle_vertex :: "real list \<Rightarrow> nat \<Rightarrow> nat \<Rightarrow> vec3" where
  "triangle_vertex vertices k j =
     (vertices ! (9 * k + 3 * j), vertices ! (9 * k + 3 * j + 1), vertices ! (9 * k + 3 * j + 2))"

definition triangle_cross :: "real list \<Rightarrow> nat \<Rightarrow> vec3" where
  "triangle_cross vertices k =
     glm_cross (vec_sub (triangle_vertex vertices k 1) (triangle_vertex vertices k 0))
               (vec_sub (triangle_vertex vertices k 2) (triangle_vertex vertices k 0))"

definition face_normal :: "real list \<Rightarrow> nat \<Rightarrow> fval \<times> fval \<times> fval" where
  "face_normal vertices k = glm_normalize (triangle_cross vertices k)"

definition normal_block :: "real list \<Rightarrow> nat \<Rightarrow> fval list" where
  "normal_block vertices k =
     (case face_normal vertices k of (nx, ny, nz) \<Rightarrow> [nx, ny, nz, nx, ny, nz, nx, ny, nz])"

definition normals_spec :: "real list \<Rightarrow> fval list" where
  "normals_spec vertices = concat (map (normal_block vertices) [0 ..< length vertices div 9])"

text \<open>
  The specification's mesh file: the header with the two counts, one record of position
  and normal per vertex, one record per face that starts with the literal 3 and names the
  vertices \<open>3k\<close>, \<open>3k + 1\<close>, \<open>3k + 2\<close>.
\<close>

definition vertex_record :: "real list \<Rightarrow> fval list \<Rightarrow> nat \<Rightarrow> line" where
  "vertex_record vertices normals v =
     [RealTok (vertices ! (3 * v)), RealTok (vertices ! (3 * v + 1)),
      RealTok (vertices ! (3 * v + 2)),
      ValTok (normals ! (3 * v)), ValTok (normals ! (3 * v + 1)),
      ValTok (normals ! (3 * v + 2))]"

definition face_record :: "nat \<Rightarrow> line" where
  "face_record k =
     [Lit ''3'', IntTok (int (3 * k)), IntTok (int (3 * k + 1)), IntTok (int (3 * k + 2))]"

definition ply_spec :: "real list \<Rightarrow> fval list \<Rightarrow> string option \<Rightarrow> line list" where
  "ply_spec vertices normals comment =
     ply_header comment (int (length vertices div 3)) (int (length vertices div 3 div 3))
       @ map (vertex_record vertices normals) [0 ..< length vertices div 3]
       @ map face_record [0 ..< length vertices div 3 div 3]"

section \<open>The case table and the classifier\<close>

lemma lookup_table_length: "length lookup_table = 256"
  by (simp add: lookup_table_def)

lemma lookup_table_rows:
  "list_all (\<lambda>r. length r mod 3 = 0 \<and> list_all (\<lambda>e. 0 \<le> e \<and> e \<le> 11) r) lookup_table"
  by (simp add: lookup_table_def)

lemma lookup_table_first: "lookup_table ! 0 = []"
  by (simp add: lookup_table_def)

lemma lookup_table_last: "lookup_table ! 255 = []"
  by (simp add: lookup_table_def)

lemma lookup_table_row:
  assumes "0 \<le> c" "c \<le> 255"
  shows "length (lookup_table ! nat c) mod 3 = 0"
    and "list_all (\<lambda>e. 0 \<le> e \<and> e \<le> 11) (lookup_table ! nat c)"
proof -
  have "nat c < length lookup_table"
    using assms by (simp add: lookup_table_length)
  with lookup_table_rows
  have "length (lookup_table ! nat c) mod 3 = 0 \<and>
        list_all (\<lambda>e. 0 \<le> e \<and> e \<le> 11) (lookup_table ! nat c)"
    by (simp add: list_all_length)
  then show "length (lookup_table ! nat c) mod 3 = 0"
    and "list_all (\<lambda>e. 0 \<le> e \<and> e \<le> 11) (lookup_table ! nat c)"
    by simp_all
qed

lemma lookup_configuration_in_range:
  "0 \<le> c \<Longrightarrow> c \<le> 255 \<Longrightarrow> lookup_configuration c = Inr (lookup_table ! nat c)"
  by (simp add: lookup_configuration_def py_index_def lookup_table_length)

text \<open>
  C1. For every configuration from 0 to 255 the lookup returns a list whose length is a
  multiple of 3 and whose elements all lie between 0 and 11; configurations 0 and 255
  return the empty list.
\<close>

theorem lookup_configuration_wellformed:
  "(0 \<le> c \<and> c \<le> 255 \<longrightarrow>
      (\<exists>r. lookup_configuration c = Inr r \<and> length r mod 3 = 0 \<and>
           list_all (\<lambda>e. 0 \<le> e \<and> e \<le> 11) r)) \<and>
   lookup_configuration 0 = Inr [] \<and> lookup_configuration 255 = Inr []"
proof (intro conjI impI)
  assume "0 \<le> c \<and> c \<le> 255"
  then have c: "0 \<le> c" "c \<le> 255" by simp_all
  show "\<exists>r. lookup_configuration c = Inr r \<and> length r mod 3 = 0 \<and>
            list_all (\<lambda>e. 0 \<le> e \<and> e \<le> 11) r"
    using lookup_configuration_in_range [OF c] lookup_table_row [OF c] by simp
next
  show "lookup_configuration 0 = Inr []"
    using lookup_configuration_in_range [of 0] by (simp add: lookup_table_first)
next
  show "lookup_configuration 255 = Inr []"
    using lookup_configuration_in_range [of 255] by (simp add: lookup_table_last)
qed

theorem lookup_configuration_wellformed_witness:
  "(0::int) \<le> 7 \<and> (7::int) \<le> 255 \<and>
   (\<exists>r. lookup_configuration 7 = Inr r \<and> length r mod 3 = 0 \<and>
        list_all (\<lambda>e. 0 \<le> e \<and> e \<le> 11) r)"
  using lookup_configuration_wellformed [of 7] by simp

text \<open>
  C5, as the code has it. The lookup is a bare list subscript: an index above 255 or
  below -256 raises IndexError, but an index from -256 to -1 is not rejected; Python
  counts it from the end of the table and the entry of index + 256 is returned.
\<close>

theorem lookup_configuration_out_of_range:
  "(255 < c \<or> c < - 256 \<longrightarrow> lookup_configuration c = Inl IndexError) \<and>
   (- 256 \<le> c \<and> c < 0 \<longrightarrow> lookup_configuration c = Inr (lookup_table ! nat (c + 256)))"
  by (auto simp: lookup_configuration_def py_index_def lookup_table_length)

theorem lookup_configuration_out_of_range_witness:
  "((255::int) < 256 \<or> (256::int) < - 256) \<and> lookup_configuration 256 = Inl IndexError \<and>
   (- 256 \<le> (- 1::int) \<and> (- 1::int) < 0) \<and> lookup_configuration (- 1) = Inr []"
  using lookup_configuration_out_of_range [of 256] lookup_configuration_out_of_range [of "- 1"]
  by (simp add: lookup_table_last)

text \<open>The claim as written fails at index -255, which returns the row of configuration 1.\<close>

theorem lookup_configuration_negative_counterexample:
  "lookup_configuration (- 255) = Inr [0, 8, 3]"
  by (simp add: lookup_configuration_def py_index_def lookup_table_length)
     (simp add: lookup_table_def)

lemma cube_case_sum:
  "cube_case f isovalue x y z s =
     (if f x y z < isovalue then 1 else 0) +
     (if f (x + s) y z < isovalue then 2 else 0) +
     (if f (x + s) y (z + s) < isovalue then 4 else 0) +
     (if f x y (z + s) < isovalue then 8 else 0) +
     (if f x (y + s) z < isovalue then 16 else 0) +
     (if f (x + s) (y + s) z < isovalue then 32 else 0) +
     (if f (x + s) (y + s) (z + s) < isovalue then 64 else 0) +
     (if f x (y + s) (z + s) < isovalue then 128 else 0)"
  unfolding cube_case_def Let_def set_if_inside_def
    FRONT_BOTTOM_LEFT_def FRONT_BOTTOM_RIGHT_def FRONT_TOP_LEFT_def FRONT_TOP_RIGHT_def
    BACK_BOTTOM_LEFT_def BACK_BOTTOM_RIGHT_def BACK_TOP_LEFT_def BACK_TOP_RIGHT_def
  by simp

lemma cube_case_range:
  "0 \<le> cube_case f isovalue x y z s \<and> cube_case f isovalue x y z s \<le> 255"
  unfolding cube_case_sum by (simp split: if_splits)

lemma bits_of_sum:
  fixes b0 b1 b2 b3 b4 b5 b6 b7 :: bool
  defines "c \<equiv> (if b0 then 1 else 0) + (if b1 then 2 else 0) + (if b2 then 4 else 0) +
     (if b3 then 8 else 0) + (if b4 then 16 else 0) + (if b5 then 32 else 0) +
     (if b6 then 64 else 0) + (if b7 then (128::int) else 0)"
  shows "bit c 0 = b0" "bit c 1 = b1" "bit c 2 = b2" "bit c 3 = b3"
        "bit c 4 = b4" "bit c 5 = b5" "bit c 6 = b6" "bit c 7 = b7"
  unfolding c_def
  by (cases b0; cases b1; cases b2; cases b3; cases b4; cases b5; cases b6; cases b7; simp)+

text \<open>
  C2. The configuration of the cube at \<open>(x, y, z)\<close> is the sum of the bits of the corners
  whose field value is strictly below the isovalue, with back-bottom-left \<open>(x, y, z)\<close> as
  1, back-bottom-right \<open>(x+s, y, z)\<close> as 2, front-bottom-right \<open>(x+s, y, z+s)\<close> as 4,
  front-bottom-left \<open>(x, y, z+s)\<close> as 8, back-top-left \<open>(x, y+s, z)\<close> as 16, back-top-right
  \<open>(x+s, y+s, z)\<close> as 32, front-top-right \<open>(x+s, y+s, z+s)\<close> as 64 and front-top-left
  \<open>(x, y+s, z+s)\<close> as 128: bit \<open>i\<close> of the configuration is set if and only if corner
  \<open>i\<close> is inside.
\<close>

theorem cube_case_bits:
  "cube_case f isovalue x y z s =
     (if f x y z < isovalue then 1 else 0) +
     (if f (x + s) y z < isovalue then 2 else 0) +
     (if f (x + s) y (z + s) < isovalue then 4 else 0) +
     (if f x y (z + s) < isovalue then 8 else 0) +
     (if f x (y + s) z < isovalue then 16 else 0) +
     (if f (x + s) (y + s) z < isovalue then 32 else 0) +
     (if f (x + s) (y + s) (z + s) < isovalue then 64 else 0) +
     (if f x (y + s) (z + s) < isovalue then 128 else 0) \<and>
   bit (cube_case f isovalue x y z s) 0 = (f x y z < isovalue) \<and>
   bit (cube_case f isovalue x y z s) 1 = (f (x + s) y z < isovalue) \<and>
   bit (cube_case f isovalue x y z s) 2 = (f (x + s) y (z + s) < isovalue) \<and>
   bit (cube_case f isovalue x y z s) 3 = (f x y (z + s) < isovalue) \<and>
   bit (cube_case f isovalue x y z s) 4 = (f x (y + s) z < isovalue) \<and>
   bit (cube_case f isovalue x y z s) 5 = (f (x + s) (y + s) z < isovalue) \<and>
   bit (cube_case f isovalue x y z s) 6 = (f (x + s) (y + s) (z + s) < isovalue) \<and>
   bit (cube_case f isovalue x y z s) 7 = (f x (y + s) (z + s) < isovalue)"
  unfolding cube_case_sum by (intro conjI refl bits_of_sum)

section \<open>Loops\<close>

lemma for_loop_append_each: "for_loop xs (\<lambda>v m. Inr (m @ [v])) m = Inr (m @ xs)"
  by (induction xs arbitrary: m) simp_all

lemma for_loop_emit:
  assumes "\<And>v st. v \<in> set xs \<Longrightarrow> body v st = Inr (st @ h v)"
  shows "for_loop xs body st = Inr (st @ concat (map h xs))"
  using assms by (induction xs arbitrary: st) simp_all

lemma length_concat_map_const:
  "(\<And>x. x \<in> set xs \<Longrightarrow> length (h x) = n) \<Longrightarrow> length (concat (map h xs)) = n * length xs"
  by (induction xs) simp_all

lemma dvd_length_concat_map:
  "(\<And>x. x \<in> set xs \<Longrightarrow> n dvd length (h x)) \<Longrightarrow> n dvd length (concat (map h xs))"
  by (induction xs) simp_all

lemma nth_concat_map_const:
  assumes "\<And>x. length (h x) = n" "k < length xs" "j < n"
  shows "concat (map h xs) ! (n * k + j) = h (xs ! k) ! j"
  using assms(2)
proof (induction xs arbitrary: k)
  case Nil
  then show ?case by simp
next
  case (Cons a xs)
  show ?case
  proof (cases k)
    case 0
    then show ?thesis using assms(1,3) by (simp add: nth_append)
  next
    case (Suc k')
    then have "k' < length xs" using Cons.prems by simp
    then have "concat (map h xs) ! (n * k' + j) = h (xs ! k') ! j" by (rule Cons.IH)
    then show ?thesis using Suc assms(1) by (simp add: nth_append add.assoc)
  qed
qed

section \<open>Vertex emission\<close>

lemma edge_midpoints_length: "length edge_midpoints = 12"
  by (simp add: edge_midpoints_def)

lemma edge_vertex_length: "length (edge_vertex origin stepsize e) = 3"
  by (simp add: edge_vertex_def split: prod.splits)

lemma get_vertex_positions_eq:
  assumes "list_all (\<lambda>e. 0 \<le> e \<and> e \<le> 11) configuration"
  shows "get_vertex_positions configuration origin stepsize =
           Inr (vertex_positions_spec configuration origin stepsize)"
proof -
  obtain x y z where o: "origin = (x, y, z)"
    by (cases origin) auto
  have "for_loop configuration
          (\<lambda>index vs. case py_index edge_midpoints index of
               Inl e \<Rightarrow> Inl e
             | Inr (edge_x, edge_y, edge_z) \<Rightarrow>
                 Inr (vs @ [x + stepsize * edge_x, y + stepsize * edge_y, z + stepsize * edge_z]))
          [] = Inr ([] @ concat (map (edge_vertex origin stepsize) configuration))"
  proof (rule for_loop_emit)
    fix v st
    assume "v \<in> set configuration"
    with assms have "0 \<le> v" "v \<le> 11"
      by (simp_all add: list_all_iff)
    then show "(case py_index edge_midpoints v of
               Inl e \<Rightarrow> Inl e
             | Inr (edge_x, edge_y, edge_z) \<Rightarrow>
                 Inr (st @ [x + stepsize * edge_x, y + stepsize * edge_y, z + stepsize * edge_z]))
          = Inr (st @ edge_vertex origin stepsize v)"
      by (simp add: py_index_def edge_midpoints_length edge_vertex_def edge_offset_def o
          split: prod.splits)
  qed
  then show ?thesis
    by (simp add: get_vertex_positions_def vertex_positions_spec_def o)
qed

lemma vertex_positions_spec_length:
  "length (vertex_positions_spec configuration origin stepsize) = 3 * length configuration"
  unfolding vertex_positions_spec_def
  by (rule length_concat_map_const) (rule edge_vertex_length)

lemma vertex_positions_spec_nth:
  assumes "k < length configuration" "j < 3"
  shows "vertex_positions_spec configuration origin stepsize ! (3 * k + j) =
           edge_vertex origin stepsize (configuration ! k) ! j"
  unfolding vertex_positions_spec_def
  using edge_vertex_length assms by (rule nth_concat_map_const)

text \<open>
  C3. For an edge-index list whose elements all lie between 0 and 11, any cube origin
  \<open>(x, y, z)\<close> and any stepsize, the emitter returns the specification's list: three
  reals per edge index, in the order of the indices, the triple of the \<open>k\<close>-th index
  being the origin plus stepsize times that index's entry of the edge-midpoint table.
\<close>

theorem get_vertex_positions_correct:
  assumes "list_all (\<lambda>e. 0 \<le> e \<and> e \<le> 11) configuration"
  shows "\<exists>vs. get_vertex_positions configuration (x, y, z) stepsize = Inr vs \<and>
           vs = vertex_positions_spec configuration (x, y, z) stepsize \<and>
           length vs = 3 * length configuration \<and>
           list_all (\<lambda>k. vs ! (3 * k) = x + stepsize * fst (edge_midpoints ! nat (configuration ! k)) \<and>
                         vs ! (3 * k + 1) = y + stepsize * fst (snd (edge_midpoints ! nat (configuration ! k))) \<and>
                         vs ! (3 * k + 2) = z + stepsize * snd (snd (edge_midpoints ! nat (configuration ! k))))
             [0 ..< length configuration]"
proof -
  let ?vs = "vertex_positions_spec configuration (x, y, z) stepsize"
  have "?vs ! (3 * k) = x + stepsize * fst (edge_midpoints ! nat (configuration ! k)) \<and>
        ?vs ! (3 * k + 1) = y + stepsize * fst (snd (edge_midpoints ! nat (configuration ! k))) \<and>
        ?vs ! (3 * k + 2) = z + stepsize * snd (snd (edge_midpoints ! nat (configuration ! k)))"
    if k: "k < length configuration" for k
    using vertex_positions_spec_nth [OF k, of 0 "(x, y, z)" stepsize]
      vertex_positions_spec_nth [OF k, of 1 "(x, y, z)" stepsize]
      vertex_positions_spec_nth [OF k, of 2 "(x, y, z)" stepsize]
    by (simp add: edge_vertex_def edge_offset_def split: prod.splits)
  then show ?thesis
    using get_vertex_positions_eq [OF assms] vertex_positions_spec_length
    by (simp add: list_all_iff)
qed

theorem get_vertex_positions_correct_witness:
  "list_all (\<lambda>e. 0 \<le> e \<and> e \<le> 11) [0, 8, 3 :: int] \<and>
   get_vertex_positions [0, 8, 3] (1, 2, 3) 2 = Inr [2, 2, 3, 1, 3, 3, 1, 2, 4]"
  using get_vertex_positions_correct [of "[0, 8, 3]" 1 2 3 2]
  by (simp add: vertex_positions_spec_def edge_vertex_def edge_offset_def edge_midpoints_def)

section \<open>The lattice scan\<close>

lemma scan_cube_eq:
  "scan_cube f isovalue stepsize y x z mesh = Inr (mesh @ cube_mesh f isovalue stepsize y x z)"
proof -
  let ?c = "cube_case f isovalue x y z stepsize"
  have r: "0 \<le> ?c" "?c \<le> 255"
    using cube_case_range by simp_all
  have l: "lookup_configuration ?c = Inr (lookup_table ! nat ?c)"
    using r by (rule lookup_configuration_in_range)
  have g: "get_vertex_positions (lookup_table ! nat ?c) (x, y, z) stepsize =
             Inr (cube_mesh f isovalue stepsize y x z)"
    unfolding cube_mesh_def using lookup_table_row(2) [OF r] by (rule get_vertex_positions_eq)
  show ?thesis
    by (simp add: scan_cube_def l g for_loop_append_each)
qed

lemma arange_eq: "stepsize \<noteq> 0 \<Longrightarrow> arange lo hi stepsize = Inr (lattice lo hi stepsize)"
  by (simp add: arange_def lattice_def)

lemma marching_cubes_eq:
  assumes "stepsize \<noteq> 0"
  shows "marching_cubes f isovalue lo hi stepsize =
           Inr (mesh_of_lattice f isovalue stepsize (lattice lo hi stepsize))"
proof -
  let ?L = "lattice lo hi stepsize"
  have zs: "for_loop ?L (scan_cube f isovalue stepsize y x) m =
              Inr (m @ concat (map (\<lambda>z. cube_mesh f isovalue stepsize y x z) ?L))" for y x m
    by (rule for_loop_emit) (rule scan_cube_eq)
  have xs: "for_loop ?L (\<lambda>x m. for_loop ?L (scan_cube f isovalue stepsize y x) m) m =
              Inr (m @ concat (map (\<lambda>x. concat (map (\<lambda>z.
                cube_mesh f isovalue stepsize y x z) ?L)) ?L))" for y m
    by (rule for_loop_emit) (rule zs)
  have ys: "for_loop ?L (\<lambda>y m. for_loop ?L (\<lambda>x m.
              for_loop ?L (scan_cube f isovalue stepsize y x) m) m) [] =
              Inr ([] @ mesh_of_lattice f isovalue stepsize ?L)"
    unfolding mesh_of_lattice_def by (rule for_loop_emit) (rule xs)
  show ?thesis
    using ys by (simp add: marching_cubes_def arange_eq [OF assms])
qed

lemma marching_cubes_zero_step:
  "marching_cubes f isovalue lo hi 0 = Inl ZeroDivisionError"
  by (simp add: marching_cubes_def arange_def)



text \<open>
  C9. For every field, isovalue, cube origin and stepsize the configuration that the scan
  builds lies between 0 and 255, so the lookup it makes returns the table row of that
  configuration rather than taking the subscript's error branch, and the scan as a whole
  never ends in IndexError, whatever its bounds and stepsize.
\<close>

theorem cube_case_in_table:
  "0 \<le> cube_case f isovalue x y z stepsize \<and> cube_case f isovalue x y z stepsize \<le> 255 \<and>
   lookup_configuration (cube_case f isovalue x y z stepsize) =
     Inr (lookup_table ! nat (cube_case f isovalue x y z stepsize)) \<and>
   marching_cubes f isovalue volume_min volume_max stepsize \<noteq> Inl IndexError"
proof (intro conjI)
  show "marching_cubes f isovalue volume_min volume_max stepsize \<noteq> Inl IndexError"
    by (cases "stepsize = 0") (simp_all add: marching_cubes_zero_step marching_cubes_eq)
qed (use cube_case_range lookup_configuration_in_range in simp_all)




section \<open>Shape and extent of the mesh\<close>

lemma cube_mesh_length: "9 dvd length (cube_mesh f isovalue stepsize y x z)"
proof -
  let ?r = "lookup_table ! nat (cube_case f isovalue x y z stepsize)"
  have "length ?r mod 3 = 0"
    using cube_case_range by (intro lookup_table_row(1)) simp_all
  then have "3 dvd length ?r" by presburger
  then have "3 * 3 dvd 3 * length ?r" by (rule mult_dvd_mono [OF dvd_refl])
  then show ?thesis
    by (simp add: cube_mesh_def vertex_positions_spec_length)
qed

lemma mesh_of_lattice_length: "9 dvd length (mesh_of_lattice f isovalue stepsize L)"
  unfolding mesh_of_lattice_def
  by (intro dvd_length_concat_map) (rule cube_mesh_length)















section \<open>Normals\<close>

lemma py_index_nat: "i < length xs \<Longrightarrow> py_index xs (int i) = Inr (xs ! i)"
  by (simp add: py_index_def)

lemma read_vec3_nat:
  assumes "i + 2 < length vs"
  shows "read_vec3 vs (int i) = Inr (vs ! i, vs ! (i + 1), vs ! (i + 2))"
proof -
  have "py_index vs (int i) = Inr (vs ! i)"
    using assms by (intro py_index_nat) simp
  moreover have "py_index vs (int i + 1) = Inr (vs ! (i + 1))"
    using assms py_index_nat [of "i + 1" vs] by (simp add: add.commute)
  moreover have "py_index vs (int i + 2) = Inr (vs ! (i + 2))"
    using assms py_index_nat [of "i + 2" vs] by (simp add: add.commute)
  ultimately show ?thesis by (simp add: read_vec3_def)
qed

lemma triangle_normal_nat:
  assumes "9 * k + 8 < length vs"
  shows "triangle_normal vs (9 * int k) = Inr (face_normal vs k)"
proof -
  have a: "read_vec3 vs (9 * int k) = Inr (triangle_vertex vs k 0)"
    using assms read_vec3_nat [of "9 * k" vs] by (simp add: triangle_vertex_def)
  have b: "read_vec3 vs (9 * int k + 3) = Inr (triangle_vertex vs k 1)"
    using assms read_vec3_nat [of "9 * k + 3" vs] by (simp add: triangle_vertex_def add.commute)
  have c: "read_vec3 vs (9 * int k + 6) = Inr (triangle_vertex vs k 2)"
    using assms read_vec3_nat [of "9 * k + 6" vs] by (simp add: triangle_vertex_def add.commute)
  show ?thesis
    by (simp add: triangle_normal_def a b c face_normal_def triangle_cross_def)
qed

lemma arange_int_multiple:
  assumes "0 < step" "step dvd n"
  shows "arange_int 0 (int n) (int step) = Inr (map (\<lambda>k. int step * int k) [0 ..< n div step])"
proof -
  from assms(2) obtain q where q: "n = step * q" ..
  have "0 - int n = int step * (- int q)"
    by (simp add: q)
  then have "(0 - int n) div int step = - int q"
    using assms(1) by (simp only: nonzero_mult_div_cancel_left of_nat_eq_0_iff)
  moreover have "n div step = q"
    using assms(1) q by simp
  ultimately show ?thesis
    using assms(1) by (simp add: arange_int_def mult.commute)
qed

lemma for_loop_map: "for_loop (map g xs) body st = for_loop xs (\<lambda>x. body (g x)) st"
  by (induction xs arbitrary: st) (simp_all split: sum.splits)

lemma three_times: "for_loop [0 ..< 3] (\<lambda>i ns. Inr (ns @ b)) st = Inr (st @ b @ b @ b)"
  by (simp add: upt_rec)

lemma compute_normals_eq:
  assumes "length vs mod 9 = 0"
  shows "compute_normals vs = Inr (normals_spec vs)"
proof -
  let ?ks = "[0 ..< length vs div 9]"
  have ar: "arange_int 0 (int (length vs)) 9 = Inr (map (\<lambda>k. 9 * int k) ?ks)"
    using assms arange_int_multiple [of 9 "length vs"] by (simp add: mod_eq_0_iff_dvd)
  have body: "(case triangle_normal vs (9 * int k) of
                 Inl e \<Rightarrow> Inl e
               | Inr (nx, ny, nz) \<Rightarrow>
                   for_loop [0 ..< 3] (\<lambda>i ns. Inr (ns @ [nx, ny, nz])) st)
              = Inr (st @ normal_block vs k)"
    if "k \<in> set ?ks" for k st
  proof -
    from that assms have "9 * k + 8 < length vs" by (simp; presburger)
    then show ?thesis
      by (simp add: triangle_normal_nat three_times normal_block_def split: prod.splits)
  qed
  have "for_loop ?ks
          (\<lambda>k normals. case triangle_normal vs (9 * int k) of
                 Inl e \<Rightarrow> Inl e
               | Inr (nx, ny, nz) \<Rightarrow>
                   for_loop [0 ..< 3] (\<lambda>i ns. Inr (ns @ [nx, ny, nz])) normals)
          [] = Inr ([] @ concat (map (normal_block vs) ?ks))"
    by (rule for_loop_emit) (rule body)
  then show ?thesis
    by (simp add: compute_normals_def ar for_loop_map normals_spec_def)
qed

lemma normal_block_length: "length (normal_block vs k) = 9"
  by (simp add: normal_block_def split: prod.splits)

lemma normals_spec_length:
  "length vs mod 9 = 0 \<Longrightarrow> length (normals_spec vs) = length vs"
  using length_concat_map_const [of "[0 ..< length vs div 9]" "normal_block vs" 9]
  by (simp add: normals_spec_def normal_block_length mod_eq_0_iff_dvd)









section \<open>The PLY writer\<close>

lemma vertex_line_nat:
  assumes "3 * v + 2 < length vs" "3 * v + 2 < length ns"
  shows "vertex_line vs ns (3 * int v) = Inr (vertex_record vs ns v)"
proof -
  have a: "read_vec3 vs (3 * int v) = Inr (vs ! (3 * v), vs ! (3 * v + 1), vs ! (3 * v + 2))"
    using assms(1) read_vec3_nat [of "3 * v" vs] by simp
  have b: "py_index ns (3 * int v) = Inr (ns ! (3 * v))"
    using assms(2) py_index_nat [of "3 * v" ns] by simp
  have c: "py_index ns (3 * int v + 1) = Inr (ns ! (3 * v + 1))"
    using assms(2) py_index_nat [of "3 * v + 1" ns] by (simp add: add.commute)
  have d: "py_index ns (3 * int v + 2) = Inr (ns ! (3 * v + 2))"
    using assms(2) py_index_nat [of "3 * v + 2" ns] by (simp add: add.commute)
  show ?thesis
    by (simp add: vertex_line_def a b c d vertex_record_def)
qed

lemma face_line_nat: "face_line (3 * int k) = face_record k"
  by (simp add: face_line_def face_record_def)

lemma writePLY_eq:
  assumes "length vs mod 9 = 0" "length vs \<le> length ns"
  shows "writePLY vs ns comment = Inr (ply_spec vs ns comment)"
proof -
  let ?nv = "length vs div 3" and ?nf = "length vs div 3 div 3"
  let ?h = "ply_header comment (int ?nv) (int ?nf)"
  from assms(1) have d3: "3 dvd length vs" and d9: "3 dvd ?nv"
    by presburger+
  have nv: "int (length vs) div 3 = int ?nv"
    by (simp add: zdiv_int)
  have nf: "int ?nv div 3 = int ?nf"
    by (simp add: zdiv_int)
  have ar1: "arange_int 0 (int (length vs)) 3 = Inr (map (\<lambda>v. 3 * int v) [0 ..< ?nv])"
    using d3 arange_int_multiple [of 3 "length vs"] by simp
  have ar2: "arange_int 0 (int ?nv) 3 = Inr (map (\<lambda>k. 3 * int k) [0 ..< ?nf])"
    using d9 arange_int_multiple [of 3 ?nv] by simp
  have vbody: "(case vertex_line vs ns (3 * int v) of Inl e \<Rightarrow> Inl e | Inr l \<Rightarrow> Inr (out @ [l]))
                = Inr (out @ [vertex_record vs ns v])"
    if "v \<in> set [0 ..< ?nv]" for v out
  proof -
    from that d3 have "3 * v + 2 < length vs" by (simp; presburger)
    with assms(2) show ?thesis
      by (simp add: vertex_line_nat)
  qed
  have l1: "for_loop [0 ..< ?nv]
              (\<lambda>v out. case vertex_line vs ns (3 * int v) of
                            Inl e \<Rightarrow> Inl e | Inr l \<Rightarrow> Inr (out @ [l])) ?h
            = Inr (?h @ concat (map (\<lambda>v. [vertex_record vs ns v]) [0 ..< ?nv]))"
    by (rule for_loop_emit) (rule vbody)
  have l2: "for_loop [0 ..< ?nf] (\<lambda>k out. Inr (out @ [face_line (3 * int k)])) out
            = Inr (out @ concat (map (\<lambda>k. [face_record k]) [0 ..< ?nf]))" for out
    by (rule for_loop_emit) (simp add: face_line_nat)
  have c: "concat (map (\<lambda>x. [g x]) xs) = map g xs" for g :: "nat \<Rightarrow> line" and xs
    by (induction xs) simp_all
  show ?thesis
    by (simp add: writePLY_def Let_def nv nf ar1 ar2 for_loop_map l1 l2 c ply_spec_def)
qed






text \<open>
  The script's own pipeline meets the writer's needs: for a non-zero stepsize the scan
  returns a mesh, the normal computation returns its normals, and the write succeeds.
\<close>

lemma script_pipeline:
  assumes "stepsize \<noteq> 0"
  shows "\<exists>vs ns. marching_cubes f isovalue volume_min volume_max stepsize = Inr vs \<and>
           compute_normals vs = Inr ns \<and>
           writePLY vs ns comment = Inr (ply_spec vs ns comment)"
proof -
  let ?vs = "mesh_of_lattice f isovalue stepsize (lattice volume_min volume_max stepsize)"
  have l: "length ?vs mod 9 = 0"
    using mesh_of_lattice_length [of f isovalue stepsize] by (simp add: mod_eq_0_iff_dvd)
  have "writePLY ?vs (normals_spec ?vs) comment = Inr (ply_spec ?vs (normals_spec ?vs) comment)"
    using l by (intro writePLY_eq) (simp_all add: normals_spec_length)
  then show ?thesis
    using marching_cubes_eq [OF assms] compute_normals_eq [OF l] by simp
qed




end
